theory Spec2Isabelle
  imports Main "HOL-Library.Word"
begin

unbundle bit_operations_syntax

section \<open>Python values, exceptions and byte streams\<close>

text \<open>
  The embedding follows \<^verbatim>\<open>robosat_pink/tools/rasterize.py\<close> and
  \<^verbatim>\<open>robosat_pink/logs.py\<close>. A Python exception is a value: \<open>SystemExit\<close> (raised by
  \<^verbatim>\<open>sys.exit\<close>) derives from \<^verbatim>\<open>BaseException\<close> only, every other exception of the
  model derives from \<^verbatim>\<open>Exception\<close>; the distinction decides what
  \<^verbatim>\<open>except Exception\<close> catches in \<^verbatim>\<open>main\<close>.
\<close>

type_synonym byte = "8 word"

datatype exn = StructError | IndexError | TypeError | ValueError | NameError | DatabaseError

datatype error = SystemExit string | Exc exn

text \<open>
  The two kinds of Python value that meet in the comparison of line 86: an integer and a
  tuple. Python's \<^verbatim>\<open>==\<close> compares two integers by value and two tuples element by
  element; a tuple and an integer are never equal.
\<close>

datatype pyval = PyInt int | PyTuple "pyval list"

definition py_eq :: "pyval \<Rightarrow> pyval \<Rightarrow> bool" where
  "py_eq a b = (a = b)"

text \<open>
  The argument of \<^verbatim>\<open>wkb_to_numpy\<close>: \<^verbatim>\<open>None\<close>, or an \<^verbatim>\<open>io.BytesIO\<close> stream, given by
  the bytes not yet read. A stream object defines neither \<^verbatim>\<open>__bool__\<close> nor
  \<^verbatim>\<open>__len__\<close>, so it is truthy whatever it holds.
\<close>

datatype wkb_arg = PyNone | BytesIO "byte list"

fun py_not :: "wkb_arg \<Rightarrow> bool" where
  "py_not PyNone = True"
| "py_not (BytesIO s) = False"

text \<open>\<^verbatim>\<open>wkb.read(n)\<close>: at most \<open>n\<close> bytes, fewer at the end of the stream, never an error.\<close>

definition read :: "nat \<Rightarrow> byte list \<Rightarrow> byte list \<times> byte list" where
  "read n s = (take n s, drop n s)"

text \<open>
  \<^verbatim>\<open>struct.unpack("<b", buf)\<close> and \<^verbatim>\<open>struct.unpack(">b", buf)\<close>: one signed byte; a
  buffer of any other length raises \<^verbatim>\<open>struct.error\<close>. The result is the single element
  of the returned tuple.
\<close>

definition unpack_b :: "byte list \<Rightarrow> error + int" where
  "unpack_b buf = (case buf of [b] \<Rightarrow> Inr (sint b) | _ \<Rightarrow> Inl (Exc StructError))"

datatype endian = Big | Little

definition u16 :: "endian \<Rightarrow> byte \<Rightarrow> byte \<Rightarrow> nat" where
  "u16 e b0 b1 = (case e of Little \<Rightarrow> unat b0 + 256 * unat b1
                          | Big \<Rightarrow> 256 * unat b0 + unat b1)"

definition u32 :: "endian \<Rightarrow> byte \<Rightarrow> byte \<Rightarrow> byte \<Rightarrow> byte \<Rightarrow> nat" where
  "u32 e b0 b1 b2 b3 =
     (case e of Little \<Rightarrow> unat b0 + 256 * unat b1 + 65536 * unat b2 + 16777216 * unat b3
              | Big \<Rightarrow> 16777216 * unat b0 + 65536 * unat b1 + 256 * unat b2 + unat b3)"

text \<open>
  \<^verbatim>\<open>struct.unpack(endian + "HHddddddIHH", buf)\<close>: with an explicit byte order there is no
  padding, so the format is 60 bytes: version (0..1), band count (2..3), six doubles
  (4..51), SRID (52..55), width (56..57), height (58..59). The six doubles are unpacked and
  dropped by the caller; every bit pattern is a double, so they cannot fail.
\<close>

record wkb_header =
  version :: nat
  bands :: nat
  srid :: nat
  width :: nat
  height :: nat

definition unpack_header :: "endian \<Rightarrow> byte list \<Rightarrow> error + wkb_header" where
  "unpack_header e buf =
     (if length buf \<noteq> 60 then Inl (Exc StructError)
      else Inr \<lparr> version = u16 e (buf ! 0) (buf ! 1),
                 bands = u16 e (buf ! 2) (buf ! 3),
                 srid = u32 e (buf ! 52) (buf ! 53) (buf ! 54) (buf ! 55),
                 width = u16 e (buf ! 56) (buf ! 57),
                 height = u16 e (buf ! 58) (buf ! 59) \<rparr>)"

text \<open>
  Subscripting a Python list with an integer: the positions \<open>0\<close> to \<open>length - 1\<close>, the
  same positions counted from the end as \<open>-length\<close> to \<open>-1\<close>, and \<^verbatim>\<open>IndexError\<close> for
  every other integer.
\<close>

definition py_index :: "'a list \<Rightarrow> int \<Rightarrow> error + 'a" where
  "py_index xs i =
     (if i < - int (length xs) then Inl (Exc IndexError)
      else if i < 0 then Inr (xs ! nat (int (length xs) + i))
      else if i < int (length xs) then Inr (xs ! nat i)
      else Inl (Exc IndexError))"

section \<open>NumPy arrays\<close>

text \<open>
  An array is its element type, its shape and its elements in row-major order, each element
  as the bytes it occupies. The dtype strings of the source carry no byte-order prefix, so
  NumPy reads the elements in the byte order of the machine; keeping the bytes of each
  element as they are stored leaves that choice, and floating point, outside the model.
\<close>

datatype dtype = B1 | U1 | I1 | I2 | U2 | I4 | U4 | F4 | F8

fun itemsize :: "dtype \<Rightarrow> nat" where
  "itemsize B1 = 1"
| "itemsize U1 = 1"
| "itemsize I1 = 1"
| "itemsize I2 = 2"
| "itemsize U2 = 2"
| "itemsize I4 = 4"
| "itemsize U4 = 4"
| "itemsize F4 = 4"
| "itemsize F8 = 8"

record ndarray =
  dtype :: dtype
  shape :: "nat list"
  cells :: "byte list list"

text \<open>\<^verbatim>\<open>np.zeros(shape, dtype=...)\<close>; without a dtype NumPy takes \<^verbatim>\<open>float64\<close>.\<close>

definition np_zeros :: "nat list \<Rightarrow> dtype option \<Rightarrow> ndarray" where
  "np_zeros shp dt =
     (let d = (case dt of None \<Rightarrow> F8 | Some d' \<Rightarrow> d')
      in \<lparr> dtype = d, shape = shp,
            cells = replicate (prod_list shp) (replicate (itemsize d) 0) \<rparr>)"

primrec chunks :: "nat \<Rightarrow> nat \<Rightarrow> byte list \<Rightarrow> byte list list" where
  "chunks 0 n buf = []"
| "chunks (Suc k) n buf = take n buf # chunks k n (drop n buf)"

text \<open>
  \<^verbatim>\<open>np.ndarray((height, width), buffer=buf, dtype=d)\<close>: a view of the first
  \<open>height * width\<close> elements of the buffer; a buffer that is too small raises
  \<^verbatim>\<open>TypeError\<close>.
\<close>

definition np_ndarray :: "nat \<times> nat \<Rightarrow> byte list \<Rightarrow> dtype \<Rightarrow> error + ndarray" where
  "np_ndarray hw buf d =
     (case hw of (h, w) \<Rightarrow>
        if length buf < h * w * itemsize d then Inl (Exc TypeError)
        else Inr \<lparr> dtype = d, shape = [h, w], cells = chunks (h * w) (itemsize d) buf \<rparr>)"

text \<open>
  \<^verbatim>\<open>out[:, :, band] = plane\<close> on an array of shape \<open>[h, w, n]\<close>: in row-major order the
  element of pixel \<open>p\<close> and band \<open>b\<close> is at \<open>p * n + b\<close>.
\<close>

definition set_band :: "ndarray \<Rightarrow> nat \<Rightarrow> ndarray \<Rightarrow> ndarray" where
  "set_band arr band plane =
     (let n = shape arr ! 2
      in arr \<lparr> cells := map (\<lambda>i. if i mod n = band then cells plane ! (i div n)
                                  else cells arr ! i)
                            [0..<length (cells arr)] \<rparr>)"

text \<open>
  \<^verbatim>\<open>np.squeeze(a, axis=2)\<close>: drops the third axis when its length is one and raises
  \<^verbatim>\<open>ValueError\<close> otherwise; on \<^verbatim>\<open>None\<close> (an array of no dimension) the axis does not
  exist, which raises \<^verbatim>\<open>AxisError\<close>, a subclass of \<^verbatim>\<open>ValueError\<close>.
\<close>

definition np_squeeze2 :: "ndarray option \<Rightarrow> error + ndarray" where
  "np_squeeze2 a =
     (case a of None \<Rightarrow> Inl (Exc ValueError)
      | Some arr \<Rightarrow>
          (case shape arr of
             [h, w, n] \<Rightarrow> if n = 1 then Inr (arr \<lparr> shape := [h, w] \<rparr>)
                          else Inl (Exc ValueError)
           | _ \<Rightarrow> Inl (Exc ValueError)))"

section \<open>The WKB raster decoder\<close>

definition size_table :: "nat list" where
  "size_table = [1, 1, 1, 1, 1, 2, 2, 4, 4, 4, 8]"

definition dtype_table :: "dtype list" where
  "dtype_table = [B1, U1, U1, I1, U1, I2, U2, I4, U4, F4, F8]"

definition offline_msg :: string where
  "offline_msg = ''OffLine PostGIS WKB Data not supported.''"

definition mixed_msg :: string where
  "mixed_msg = ''Mixed PostGIS WBK Data type not supported.''"

text \<open>
  Line 86: \<^verbatim>\<open>">" if struct.unpack("<b", wkb.read(1)) == 0 else "<"\<close>. The left operand of
  the comparison is the tuple that \<^verbatim>\<open>struct.unpack\<close> returns, not its element.
\<close>

definition wkb_endian :: "int \<Rightarrow> endian" where
  "wkb_endian flag = (if py_eq (PyTuple [PyInt flag]) (PyInt 0) then Big else Little)"

text \<open>
  The loop state: \<^verbatim>\<open>out\<close>, \<^verbatim>\<open>pixtype\<close> (unbound before band 0) and the stream.
\<close>

type_synonym band_state = "ndarray option \<times> int option \<times> byte list"

text \<open>
  Lines 102 to 106: band 0 allocates \<^verbatim>\<open>out\<close> and binds \<^verbatim>\<open>pixtype\<close>; a later band
  compares its pixel-type code with \<^verbatim>\<open>pixtype\<close>.
\<close>

definition band_alloc ::
  "nat \<Rightarrow> nat \<Rightarrow> nat \<Rightarrow> nat \<Rightarrow> dtype \<Rightarrow> int \<Rightarrow> ndarray option \<Rightarrow> int option
     \<Rightarrow> error + (ndarray option \<times> int option)" where
  "band_alloc h w n band dt code out pixtype =
     (if band = 0 then Inr (Some (np_zeros [h, w, n] (Some dt)), Some code)
      else (case pixtype of None \<Rightarrow> Inl (Exc NameError)
            | Some p \<Rightarrow> if p \<noteq> code then Inl (SystemExit mixed_msg)
                        else Inr (out, pixtype)))"

text \<open>Line 108: the pixel data of the band is read and stored in its slot of \<^verbatim>\<open>out\<close>.\<close>

definition band_data ::
  "nat \<Rightarrow> nat \<Rightarrow> nat \<Rightarrow> nat \<Rightarrow> dtype \<Rightarrow> ndarray option \<Rightarrow> int option \<Rightarrow> byte list
     \<Rightarrow> error + band_state" where
  "band_data h w band sz dt out pixtype s =
     (case read (w * h * sz) s of (buf, s') \<Rightarrow>
       (case np_ndarray (h, w) buf dt of Inl err \<Rightarrow> Inl err
        | Inr plane \<Rightarrow>
           (case out of None \<Rightarrow> Inl (Exc TypeError)
            | Some arr \<Rightarrow> Inr (Some (set_band arr band plane), pixtype, s'))))"

text \<open>The body of the loop over the bands (lines 93 to 108).\<close>

definition wkb_band ::
  "endian \<Rightarrow> nat \<Rightarrow> nat \<Rightarrow> nat \<Rightarrow> nat \<Rightarrow> band_state \<Rightarrow> error + band_state" where
  "wkb_band e h w n band st =
     (case st of (out, pixtype, s) \<Rightarrow>
      (case unpack_b (fst (read 1 s)) of Inl err \<Rightarrow> Inl err
       | Inr bits \<Rightarrow>
          if bits AND 128 \<noteq> 0 then Inl (SystemExit offline_msg)
          else
           (case py_index size_table (bits AND 15) of Inl err \<Rightarrow> Inl err
            | Inr sz \<Rightarrow>
             (case py_index dtype_table (bits AND 15) of Inl err \<Rightarrow> Inl err
              | Inr dt \<Rightarrow>
               (case band_alloc h w n band dt (bits AND 15) out pixtype of Inl err \<Rightarrow> Inl err
                | Inr (out1, pixtype1) \<Rightarrow>
                   band_data h w band sz dt out1 pixtype1
                     (snd (read sz (snd (read 1 s)))))))))"

text \<open>\<^verbatim>\<open>for band in range(bands)\<close>: the body on each index in turn, up to the first raise.\<close>

fun wkb_bands ::
  "endian \<Rightarrow> nat \<Rightarrow> nat \<Rightarrow> nat \<Rightarrow> nat list \<Rightarrow> band_state \<Rightarrow> error + band_state" where
  "wkb_bands e h w n [] st = Inr st"
| "wkb_bands e h w n (band # rest) st =
     (case wkb_band e h w n band st of Inl err \<Rightarrow> Inl err
      | Inr st' \<Rightarrow> wkb_bands e h w n rest st')"

definition wkb_to_numpy :: "wkb_arg \<Rightarrow> error + ndarray option" where
  "wkb_to_numpy wkb =
     (if py_not wkb then Inr None
      else
       (case wkb of PyNone \<Rightarrow> Inl (Exc TypeError)
        | BytesIO s \<Rightarrow>
         (case read 1 s of (fb, s1) \<Rightarrow>
          (case unpack_b fb of Inl err \<Rightarrow> Inl err
           | Inr flag \<Rightarrow>
            (case read 60 s1 of (hb, s2) \<Rightarrow>
             (case unpack_header (wkb_endian flag) hb of Inl err \<Rightarrow> Inl err
              | Inr hdr \<Rightarrow>
               (case wkb_bands (wkb_endian flag) (height hdr) (width hdr) (bands hdr)
                       [0..<bands hdr] (None, None, s2)
                of Inl err \<Rightarrow> Inl err
                | Inr (out, pixtype, s3) \<Rightarrow> Inr out)))))))"

section \<open>Tiles, the log and the tile writer\<close>

text \<open>\<^verbatim>\<open>mercantile.Tile\<close>, a named tuple \<open>(x, y, z)\<close>.\<close>

datatype tile = Tile (tile_x: int) (tile_y: int) (tile_z: int)

text \<open>
  A log line is the message template of its call site with the values formatted into it:
  \<^verbatim>\<open>"Warning: invalid feature {}, skipping"\<close> (line 148),
  \<^verbatim>\<open>"Notice: {} is a non surfacic geometry type, skipping feature {}"\<close> (line 161) and
  \<^verbatim>\<open>"Warning: Invalid geometries, skipping {}"\<close> (line 245).
\<close>

datatype log_msg = InvalidFeature nat | NonSurfacic string nat | InvalidGeometries tile

text \<open>
  \<^verbatim>\<open>class Logs\<close>: the log file and the mirror stream, each absent or the lines written so
  far; \<open>writable\<close> says whether a write to them succeeds. \<^verbatim>\<open>Logs.log\<close> turns any
  failure of a write into \<^verbatim>\<open>sys.exit\<close>.
\<close>

record logs =
  fp :: "log_msg list option"
  out :: "log_msg list option"
  writable :: bool

definition log_msg_exit :: string where
  "log_msg_exit = ''Unable to write in logs file''"

definition log :: "logs \<Rightarrow> log_msg \<Rightarrow> error + logs" where
  "log l msg =
     (if fp l = None \<and> out l = None then Inr l
      else if writable l
      then Inr (l \<lparr> fp := map_option (\<lambda>f. f @ [msg]) (fp l),
                    out := map_option (\<lambda>f. f @ [msg]) (out l) \<rparr>)
      else Inl (SystemExit log_msg_exit))"

text \<open>
  The state of a run that the claims observe: the log, and the rasters handed to
  \<^verbatim>\<open>write_tile\<close>, in order. \<^verbatim>\<open>write_tile\<close> is the sink of the pipeline (palette and
  PNG encoding are external); it is modelled by what it receives.
\<close>

record world =
  logs :: logs
  written :: "(tile \<times> ndarray) list"

definition write_tile :: "tile \<Rightarrow> ndarray \<Rightarrow> world \<Rightarrow> error option \<times> world" where
  "write_tile t raster w = (None, w \<lparr> written := written w @ [(t, raster)] \<rparr>)"

text \<open>
  A \<^verbatim>\<open>for\<close> loop whose body may raise: the body on each element in turn, threading the
  state, up to the first error.
\<close>

fun for_each :: "('a \<Rightarrow> 's \<Rightarrow> error option \<times> 's) \<Rightarrow> 'a list \<Rightarrow> 's \<Rightarrow> error option \<times> 's" where
  "for_each f [] s = (None, s)"
| "for_each f (x # xs) s =
     (case f x s of (r, s') \<Rightarrow>
        (case r of Some err \<Rightarrow> (Some err, s') | None \<Rightarrow> for_each f xs s'))"

fun map_err :: "('a \<Rightarrow> error + 'b) \<Rightarrow> 'a list \<Rightarrow> error + 'b list" where
  "map_err f [] = Inr []"
| "map_err f (x # xs) =
     (case f x of Inl err \<Rightarrow> Inl err
      | Inr y \<Rightarrow> (case map_err f xs of Inl err \<Rightarrow> Inl err | Inr ys \<Rightarrow> Inr (y # ys)))"

section \<open>The GeoJSON path: the feature map\<close>

text \<open>
  A geometry by its \<^verbatim>\<open>type\<close>: the coordinates of a polygon are a list of rings, a ring a
  list of points, a point a list of numbers of type \<open>'c\<close>. \<open>OtherGeometry\<close> carries any
  other type name (\<^verbatim>\<open>Point\<close>, \<^verbatim>\<open>LineString\<close>, ...).
\<close>

datatype 'c geometry =
    Polygon "'c list list list"
  | MultiPolygon "'c list list list list"
  | GeometryCollection "'c geometry list"
  | OtherGeometry string

fun geometry_type :: "'c geometry \<Rightarrow> string" where
  "geometry_type (Polygon c) = ''Polygon''"
| "geometry_type (MultiPolygon c) = ''MultiPolygon''"
| "geometry_type (GeometryCollection gs) = ''GeometryCollection''"
| "geometry_type (OtherGeometry name) = name"

text \<open>
  \<^verbatim>\<open>feature_map\<close>, a \<^verbatim>\<open>defaultdict(list)\<close> from tile to the polygons appended for it. An
  entry \<^verbatim>\<open>{"type": "feature", "geometry": polygon}\<close> is given by the coordinates of its
  polygon.
\<close>

type_synonym 'c feature_map = "tile \<rightharpoonup> 'c list list list list"

definition fm_append :: "'c feature_map \<Rightarrow> tile \<Rightarrow> 'c list list list \<Rightarrow> 'c feature_map" where
  "fm_append fm t p = fm(t \<mapsto> (case fm t of None \<Rightarrow> [] | Some ps \<Rightarrow> ps) @ [p])"

text \<open>
  Line 142: every point is cut to \<^verbatim>\<open>[point[0], point[1]]\<close>; a point with fewer than two
  coordinates raises \<^verbatim>\<open>IndexError\<close>.
\<close>

fun normalize_point :: "'c list \<Rightarrow> error + 'c list" where
  "normalize_point (x # y # rest) = Inr [x, y]"
| "normalize_point p = Inl (Exc IndexError)"

definition normalize_polygon :: "'c list list list \<Rightarrow> error + 'c list list list" where
  "normalize_polygon polygon = map_err (map_err normalize_point) polygon"

text \<open>
  The loop of line 141 rebinds the parameter \<^verbatim>\<open>i\<close> to the index of the ring; after it,
  \<^verbatim>\<open>i\<close> is the index of the last ring, or the feature index when there is no ring.
\<close>

definition ring_index :: "'c list list list \<Rightarrow> nat \<Rightarrow> nat" where
  "ring_index polygon i = (if polygon = [] then i else length polygon - 1)"

text \<open>
  \<^verbatim>\<open>geojson_parse_polygon\<close> (lines 138 to 150). \<open>burn\<close> stands for
  \<^verbatim>\<open>burntiles.burn\<close>, the external primitive that gives the tiles of a polygon at a zoom
  level or raises. Only \<^verbatim>\<open>ValueError\<close> is caught.
\<close>

definition geojson_parse_polygon ::
  "('c list list list \<Rightarrow> int \<Rightarrow> error + tile list) \<Rightarrow> int \<Rightarrow> 'c list list list \<Rightarrow> nat
     \<Rightarrow> 'c feature_map \<times> logs \<Rightarrow> error option \<times> ('c feature_map \<times> logs)" where
  "geojson_parse_polygon burn zoom polygon i st =
     (case normalize_polygon polygon of Inl err \<Rightarrow> (Some err, st)
      | Inr coords \<Rightarrow>
         (case burn coords zoom of
            Inr tiles \<Rightarrow> (None, (fold (\<lambda>t m. fm_append m t coords) tiles (fst st), snd st))
          | Inl err \<Rightarrow>
             if err = Exc ValueError
             then (case log (snd st) (InvalidFeature (ring_index polygon i)) of
                     Inl err' \<Rightarrow> (Some err', st)
                   | Inr lg \<Rightarrow> (None, (fst st, lg)))
             else (Some err, st)))"

text \<open>\<^verbatim>\<open>geojson_parse_geometry\<close> (lines 152 to 163).\<close>

definition geojson_parse_geometry ::
  "('c list list list \<Rightarrow> int \<Rightarrow> error + tile list) \<Rightarrow> int \<Rightarrow> 'c geometry \<Rightarrow> nat
     \<Rightarrow> 'c feature_map \<times> logs \<Rightarrow> error option \<times> ('c feature_map \<times> logs)" where
  "geojson_parse_geometry burn zoom geom i st =
     (case geom of
        Polygon coords \<Rightarrow> geojson_parse_polygon burn zoom coords i st
      | MultiPolygon polygons \<Rightarrow>
          for_each (\<lambda>polygon. geojson_parse_polygon burn zoom polygon i) polygons st
      | _ \<Rightarrow>
          (case log (snd st) (NonSurfacic (geometry_type geom) i) of
             Inl err \<Rightarrow> (Some err, st)
           | Inr lg \<Rightarrow> (None, (fst st, lg))))"

text \<open>Lines 178 to 182: a geometry collection is expanded one level.\<close>

definition parse_feature ::
  "('c list list list \<Rightarrow> int \<Rightarrow> error + tile list) \<Rightarrow> int \<Rightarrow> nat \<times> 'c geometry
     \<Rightarrow> 'c feature_map \<times> logs \<Rightarrow> error option \<times> ('c feature_map \<times> logs)" where
  "parse_feature burn zoom feature st =
     (case snd feature of
        GeometryCollection geometries \<Rightarrow>
          for_each (\<lambda>g. geojson_parse_geometry burn zoom g (fst feature)) geometries st
      | _ \<Rightarrow> geojson_parse_geometry burn zoom (snd feature) (fst feature) st)"

text \<open>
  A GeoJSON file as \<^verbatim>\<open>fiona\<close> opens it: the \<^verbatim>\<open>init\<close> entry of its CRS
  (\<^verbatim>\<open>epsg:4326\<close>) and the geometries of its features, in order.
\<close>

record 'c geojson_file =
  crs_init :: string
  features :: "'c geometry list"

text \<open>Lines 170 to 182: the state is \<^verbatim>\<open>epsg\<close>, \<^verbatim>\<open>feature_map\<close> and the log.\<close>

definition parse_file ::
  "('c list list list \<Rightarrow> int \<Rightarrow> error + tile list) \<Rightarrow> int \<Rightarrow> 'c geojson_file
     \<Rightarrow> string \<times> 'c feature_map \<times> logs \<Rightarrow> error option \<times> (string \<times> 'c feature_map \<times> logs)" where
  "parse_file burn zoom file st =
     (case for_each (parse_feature burn zoom) (enumerate 0 (features file)) (snd st) of
        (r, st') \<Rightarrow> (r, (drop 5 (crs_init file), st')))"

definition build_feature_map ::
  "('c list list list \<Rightarrow> int \<Rightarrow> error + tile list) \<Rightarrow> int \<Rightarrow> 'c geojson_file list \<Rightarrow> logs
     \<Rightarrow> error option \<times> (string \<times> 'c feature_map \<times> logs)" where
  "build_feature_map burn zoom files lg =
     for_each (parse_file burn zoom) files (''4326'', Map.empty, lg)"

section \<open>The GeoJSON path: the rasterizer\<close>

text \<open>
  \<^verbatim>\<open>geojson_to_mercator\<close> on one ring: \<^verbatim>\<open>zip(*ring)\<close> gives the list of the first and
  the list of the second coordinates, \<open>transform\<close> (\<^verbatim>\<open>rasterio.warp.transform\<close>, external,
  from the EPSG code of the source to EPSG:3857) projects them, and they are zipped back
  into points. The entries of the feature map hold points of two coordinates; a ring with
  no point, or with a point of another length, leaves \<^verbatim>\<open>transform\<close> without its two
  coordinate arguments, a \<^verbatim>\<open>TypeError\<close>.
\<close>

definition ring_to_mercator ::
  "(string \<Rightarrow> 'c list \<Rightarrow> 'c list \<Rightarrow> error + 'c list \<times> 'c list) \<Rightarrow> string \<Rightarrow> 'c list list
     \<Rightarrow> error + ('c \<times> 'c) list" where
  "ring_to_mercator transform epsg ring =
     (if ring = [] then Inl (Exc TypeError)
      else if list_all (\<lambda>p. length p = 2) ring
      then (case transform epsg (map (\<lambda>p. p ! 0) ring) (map (\<lambda>p. p ! 1) ring) of
              Inl err \<Rightarrow> Inl err
            | Inr xy \<Rightarrow> Inr (zip (fst xy) (snd xy)))
      else Inl (Exc TypeError))"

definition geojson_to_mercator ::
  "(string \<Rightarrow> 'c list \<Rightarrow> 'c list \<Rightarrow> error + 'c list \<times> 'c list) \<Rightarrow> string
     \<Rightarrow> 'c list list list \<Rightarrow> error + ('c \<times> 'c) list list" where
  "geojson_to_mercator transform epsg polygon = map_err (ring_to_mercator transform epsg) polygon"

text \<open>
  \<^verbatim>\<open>geojson_tile_burn\<close> (lines 63 to 71). \<open>rasterize\<close> stands for
  \<^verbatim>\<open>rasterio.features.rasterize\<close> on the affine transform of the tile's Mercator bounds:
  from the shapes with their burn value, the tile size and the tile to a raster, or an
  error.
\<close>

definition geojson_tile_burn ::
  "(string \<Rightarrow> 'c list \<Rightarrow> 'c list \<Rightarrow> error + 'c list \<times> 'c list)
     \<Rightarrow> ((('c \<times> 'c) list list \<times> nat) list \<Rightarrow> nat \<Rightarrow> tile \<Rightarrow> error + ndarray)
     \<Rightarrow> tile \<Rightarrow> 'c list list list list \<Rightarrow> nat \<Rightarrow> nat \<Rightarrow> string \<Rightarrow> error + ndarray" where
  "geojson_tile_burn transform rasterize t feats tile_size burn_value epsg =
     (case map_err (geojson_to_mercator transform epsg) feats of Inl err \<Rightarrow> Inl err
      | Inr geoms \<Rightarrow> rasterize (map (\<lambda>g. (g, burn_value)) geoms) tile_size t)"

text \<open>The body of the loop of lines 185 to 191.\<close>

definition geojson_tile ::
  "(string \<Rightarrow> 'c list \<Rightarrow> 'c list \<Rightarrow> error + 'c list \<times> 'c list)
     \<Rightarrow> ((('c \<times> 'c) list list \<times> nat) list \<Rightarrow> nat \<Rightarrow> tile \<Rightarrow> error + ndarray)
     \<Rightarrow> nat \<Rightarrow> string \<Rightarrow> 'c feature_map \<Rightarrow> tile \<Rightarrow> world \<Rightarrow> error option \<times> world" where
  "geojson_tile transform rasterize tile_size epsg fm t w =
     (case fm t of
        Some feats \<Rightarrow>
          (case geojson_tile_burn transform rasterize t feats tile_size 1 epsg of
             Inl err \<Rightarrow> (Some err, w)
           | Inr raster \<Rightarrow> write_tile t raster w)
      | None \<Rightarrow> write_tile t (np_zeros [tile_size, tile_size] (Some U1)) w)"

definition zoom_msg :: string where
  "zoom_msg = ''With GeoJson input, zoom level and cover tiles z values have to be the same.''"

text \<open>The block \<^verbatim>\<open>if args.geojson:\<close> of \<^verbatim>\<open>main\<close> (lines 165 to 191).\<close>

definition main_geojson ::
  "('c list list list \<Rightarrow> int \<Rightarrow> error + tile list)
     \<Rightarrow> (string \<Rightarrow> 'c list \<Rightarrow> 'c list \<Rightarrow> error + 'c list \<times> 'c list)
     \<Rightarrow> ((('c \<times> 'c) list list \<times> nat) list \<Rightarrow> nat \<Rightarrow> tile \<Rightarrow> error + ndarray)
     \<Rightarrow> int \<Rightarrow> nat \<Rightarrow> tile list \<Rightarrow> 'c geojson_file list \<Rightarrow> world \<Rightarrow> error option \<times> world" where
  "main_geojson burn transform rasterize zoom tile_size cover files w =
     (if list_all (\<lambda>t. tile_z t = zoom) cover
      then (case build_feature_map burn zoom files (logs w) of
              (r, epsg, fm, lg) \<Rightarrow>
                (case r of Some err \<Rightarrow> (Some err, w \<lparr> logs := lg \<rparr>)
                 | None \<Rightarrow>
                     for_each (geojson_tile transform rasterize tile_size epsg fm) cover
                       (w \<lparr> logs := lg \<rparr>)))
      else (Some (SystemExit zoom_msg), w))"

section \<open>The PostGIS path\<close>

text \<open>
  The database is external. What the driver sees of it: whether the connection and the
  SRID query succeed, and for each tile what \<^verbatim>\<open>pg.execute\<close> and \<^verbatim>\<open>pg.fetchone\<close> give
  (an exception, no row, or a row whose first column is the WKB bytes or NULL) and whether
  the reconnection in the handler succeeds.
\<close>

datatype db_reply = QueryFails | NoRow | Row "byte list option"

record database =
  pg_dsn :: string
  connect_ok :: bool
  srid_ok :: bool
  reply :: "tile \<Rightarrow> db_reply"
  reconnect_ok :: "tile \<Rightarrow> bool"

text \<open>\<^verbatim>\<open>io.BytesIO(row[0])\<close>; on \<^verbatim>\<open>None\<close> the stream is empty.\<close>

definition io_BytesIO :: "byte list option \<Rightarrow> wkb_arg" where
  "io_BytesIO b = BytesIO (case b of None \<Rightarrow> [] | Some bs \<Rightarrow> bs)"

text \<open>
  The \<^verbatim>\<open>try\<close> block of lines 238 to 242: the raster assigned to \<^verbatim>\<open>raster\<close>, or
  \<open>None\<close> when \<^verbatim>\<open>raster\<close> keeps its initial value.
\<close>

definition fetch_raster :: "db_reply \<Rightarrow> error + ndarray option" where
  "fetch_raster r =
     (case r of
        QueryFails \<Rightarrow> Inl (Exc DatabaseError)
      | NoRow \<Rightarrow> Inr None
      | Row b \<Rightarrow>
          (case wkb_to_numpy (io_BytesIO b) of Inl err \<Rightarrow> Inl err
           | Inr a \<Rightarrow>
              (case np_squeeze2 a of Inl err \<Rightarrow> Inl err
               | Inr raster \<Rightarrow> Inr (Some raster))))"

text \<open>
  The body of the loop of lines 207 to 249. \<^verbatim>\<open>except Exception\<close> catches every
  exception but \<^verbatim>\<open>SystemExit\<close>, which leaves the loop and ends the run.
\<close>

definition postgis_tile :: "database \<Rightarrow> nat \<Rightarrow> tile \<Rightarrow> world \<Rightarrow> error option \<times> world" where
  "postgis_tile db tile_size t w =
     (case fetch_raster (reply db t) of
        Inr r \<Rightarrow>
          write_tile t (case r of None \<Rightarrow> np_zeros [tile_size, tile_size] None
                        | Some raster \<Rightarrow> raster) w
      | Inl err \<Rightarrow>
          (case err of
             SystemExit m \<Rightarrow> (Some (SystemExit m), w)
           | Exc e \<Rightarrow>
               (case log (logs w) (InvalidGeometries t) of
                  Inl err' \<Rightarrow> (Some err', w)
                | Inr lg \<Rightarrow>
                    if reconnect_ok db t
                    then write_tile t (np_zeros [tile_size, tile_size] None) (w \<lparr> logs := lg \<rparr>)
                    else (Some (Exc DatabaseError), w \<lparr> logs := lg \<rparr>))))"

definition connect_msg :: "string \<Rightarrow> string" where
  "connect_msg dsn = ''Unable to connect PostgreSQL: '' @ dsn"

definition srid_msg :: string where
  "srid_msg = ''Unable to retrieve geometry SRID.''"

text \<open>The block \<^verbatim>\<open>if args.postgis:\<close> of \<^verbatim>\<open>main\<close> (lines 193 to 249).\<close>

definition main_postgis :: "database \<Rightarrow> nat \<Rightarrow> tile list \<Rightarrow> world \<Rightarrow> error option \<times> world" where
  "main_postgis db tile_size cover w =
     (if connect_ok db
      then (if srid_ok db then for_each (postgis_tile db tile_size) cover w
            else (Some (SystemExit srid_msg), w))
      else (Some (SystemExit (connect_msg (pg_dsn db))), w))"

section \<open>The driver\<close>

text \<open>
  The arguments of \<^verbatim>\<open>main\<close> after parsing, with the files they name already read: the
  GeoJSON files, the PostGIS query, the zoom level, the tile size override and the tiles
  of the cover file. An absent or empty \<^verbatim>\<open>--geojson\<close> or \<^verbatim>\<open>--postgis\<close> is falsy, and
  so is a tile size of 0.
\<close>

record 'c args =
  geojson :: "'c geojson_file list option"
  postgis :: "string option"
  zoom :: int
  tile_size_arg :: "nat option"
  cover :: "tile list"

definition truthy :: "'a list option \<Rightarrow> bool" where
  "truthy v = (case v of None \<Rightarrow> False | Some xs \<Rightarrow> xs \<noteq> [])"

definition given :: "'a list option \<Rightarrow> 'a list" where
  "given v = (case v of None \<Rightarrow> [] | Some xs \<Rightarrow> xs)"

definition mode_msg :: string where
  "mode_msg = ''Input features to rasterize must be either GeoJSON or PostGIS''"

definition resolve_tile_size :: "nat option \<Rightarrow> nat \<Rightarrow> nat" where
  "resolve_tile_size arg config_tile_size =
     (case arg of None \<Rightarrow> config_tile_size
      | Some n \<Rightarrow> if n = 0 then config_tile_size else n)"

text \<open>
  \<^verbatim>\<open>main\<close> (lines 125 to 249), from the check of the input mode on; \<open>config_tile_size\<close> is
  \<^verbatim>\<open>config["model"]["tile_size"]\<close>, and the log of the initial state is the one that
  \<^verbatim>\<open>Logs(...)\<close> opened.
\<close>

definition main ::
  "('c list list list \<Rightarrow> int \<Rightarrow> error + tile list)
     \<Rightarrow> (string \<Rightarrow> 'c list \<Rightarrow> 'c list \<Rightarrow> error + 'c list \<times> 'c list)
     \<Rightarrow> ((('c \<times> 'c) list list \<times> nat) list \<Rightarrow> nat \<Rightarrow> tile \<Rightarrow> error + ndarray)
     \<Rightarrow> database \<Rightarrow> nat \<Rightarrow> 'c args \<Rightarrow> world \<Rightarrow> error option \<times> world" where
  "main burn transform rasterize db config_tile_size a w =
     (if (truthy (geojson a) \<and> truthy (postgis a))
           \<or> (\<not> truthy (geojson a) \<and> \<not> truthy (postgis a))
      then (Some (SystemExit mode_msg), w)
      else
        (case (if truthy (geojson a)
               then main_geojson burn transform rasterize (zoom a)
                      (resolve_tile_size (tile_size_arg a) config_tile_size) (cover a)
                      (given (geojson a)) w
               else (None, w))
         of (r, w') \<Rightarrow>
           (case r of Some err \<Rightarrow> (Some err, w')
            | None \<Rightarrow>
                if truthy (postgis a)
                then main_postgis db (resolve_tile_size (tile_size_arg a) config_tile_size)
                       (cover a) w'
                else (None, w'))))"

section \<open>Runs that agree up to the lines of their log\<close>

text \<open>
  Two logs are the same sink when they have the same file and stream present and the same
  writability: \<^verbatim>\<open>Logs.log\<close> then fails on both or on neither. Two states of the
  feature-map construction agree when their feature maps (and EPSG codes) are equal and
  their logs are the same sink; two loop bodies are alike when, from states that agree,
  they raise the same error or none and leave states that agree. \<open>seq\<close> runs one body
  after another, stopping at an error.
\<close>

definition same_sink :: "logs \<Rightarrow> logs \<Rightarrow> bool" where
  "same_sink l l' =
     (writable l = writable l' \<and> (fp l = None) = (fp l' = None)
      \<and> (out l = None) = (out l' = None))"

definition same_map :: "'c feature_map \<times> logs \<Rightarrow> 'c feature_map \<times> logs \<Rightarrow> bool" where
  "same_map s s' = (fst s = fst s' \<and> same_sink (snd s) (snd s'))"

definition same_index ::
  "string \<times> 'c feature_map \<times> logs \<Rightarrow> string \<times> 'c feature_map \<times> logs \<Rightarrow> bool" where
  "same_index s s' = (fst s = fst s' \<and> same_map (snd s) (snd s'))"

definition alike ::
  "('s \<Rightarrow> 's \<Rightarrow> bool) \<Rightarrow> ('s \<Rightarrow> error option \<times> 's) \<Rightarrow> ('s \<Rightarrow> error option \<times> 's) \<Rightarrow> bool" where
  "alike R f g = (\<forall>s s'. R s s' \<longrightarrow> fst (f s) = fst (g s') \<and> R (snd (f s)) (snd (g s')))"

definition seq ::
  "('s \<Rightarrow> error option \<times> 's) \<Rightarrow> ('s \<Rightarrow> error option \<times> 's) \<Rightarrow> 's \<Rightarrow> error option \<times> 's" where
  "seq f g s = (case f s of (r, s') \<Rightarrow> (case r of Some err \<Rightarrow> (Some err, s') | None \<Rightarrow> g s'))"

section \<open>Example inputs\<close>

text \<open>
  Raster headers for the concrete inputs below: band count \<open>n\<close>, width \<open>w\<close> and height
  \<open>h\<close> (each below 256) in little-endian and in big-endian byte order, every other field 0.
\<close>

definition le_header :: "byte \<Rightarrow> byte \<Rightarrow> byte \<Rightarrow> byte list" where
  "le_header n w h = [0, 0, n, 0] @ replicate 52 0 @ [w, 0, h, 0]"

definition be_header :: "byte \<Rightarrow> byte \<Rightarrow> byte \<Rightarrow> byte list" where
  "be_header n w h = [0, 0, 0, n] @ replicate 52 0 @ [0, w, 0, h]"

text \<open>A log that writes to its file and its stream, and a run that has written nothing.\<close>

definition logs0 :: logs where
  "logs0 = \<lparr> fp = Some [], out = Some [], writable = True \<rparr>"

definition world0 :: world where
  "world0 = \<lparr> logs = logs0, written = [] \<rparr>"

text \<open>A database that answers every tile with the same reply.\<close>

definition db_const :: "db_reply \<Rightarrow> database" where
  "db_const r = \<lparr> pg_dsn = ''dbname=test'', connect_ok = True, srid_ok = True,
                   reply = (\<lambda>t. r), reconnect_ok = (\<lambda>t. True) \<rparr>"

text \<open>
  Stand-ins for the external primitives: a tile-membership primitive that puts every
  polygon on the tile \<open>(1, 1)\<close> of the zoom level, a projection that leaves coordinates as
  they are, and a rasterizer that fills the raster with the number of shapes it was given.
\<close>

definition burn0 :: "int list list list \<Rightarrow> int \<Rightarrow> error + tile list" where
  "burn0 p z = Inr [Tile 1 1 z]"

definition transform0 :: "string \<Rightarrow> int list \<Rightarrow> int list \<Rightarrow> error + int list \<times> int list" where
  "transform0 e xs ys = Inr (xs, ys)"

definition rasterize0 :: "((int \<times> int) list list \<times> nat) list \<Rightarrow> nat \<Rightarrow> tile \<Rightarrow> error + ndarray" where
  "rasterize0 shapes ts t =
     Inr \<lparr>dtype = U1, shape = [ts, ts], cells = replicate (ts * ts) [of_nat (length shapes)]\<rparr>"


text \<open>A polygon of one ring and a GeoJSON file that holds it.\<close>

definition triangle :: "int list list list" where
  "triangle = [[[0, 0], [1, 0], [1, 1], [0, 0]]]"

definition file0 :: "int geojson_file" where
  "file0 = \<lparr>crs_init = ''epsg:4326'', features = [Polygon triangle]\<rparr>"

section \<open>Auxiliary facts about the decoder and the loops\<close>

lemma sint_and_128: "(sint (b::byte) AND 128 \<noteq> 0) = bit b 7"
proof -
  have "(sint b AND 2 ^ 7 = 0) = (\<not> bit (sint b) 7)"
    by (rule and_exp_eq_0_iff_not_bit)
  then show ?thesis by (simp add: bit_sint_iff)
qed

lemma sint_and_15: "sint (b::byte) AND 15 = uint (b AND 15)"
proof (rule bit_eqI)
  fix n
  have m: "(15::int) = mask 4" by (simp add: mask_eq_exp_minus_1)
  have m': "(15::byte) = mask 4" by (simp add: mask_eq_exp_minus_1)
  show "bit (sint b AND 15) n = bit (uint (b AND 15)) n"
    unfolding m m' by (auto simp add: bit_and_iff bit_mask_iff bit_sint_iff bit_uint_iff)
qed

lemma wkb_endian_little: "wkb_endian flag = Little"
  by (simp add: wkb_endian_def py_eq_def)

lemma wkb_band_cons:
  "wkb_band e h w n band (arr, pt, b # rest) =
     (if bit b 7 then Inl (SystemExit offline_msg)
      else (case py_index size_table (uint (b AND 15)) of Inl err \<Rightarrow> Inl err
            | Inr sz \<Rightarrow>
              (case py_index dtype_table (uint (b AND 15)) of Inl err \<Rightarrow> Inl err
               | Inr dt \<Rightarrow>
                 (case band_alloc h w n band dt (uint (b AND 15)) arr pt of Inl err \<Rightarrow> Inl err
                  | Inr (arr1, pt1) \<Rightarrow>
                      band_data h w band sz dt arr1 pt1 (drop sz rest)))))"
  by (auto simp add: wkb_band_def read_def unpack_b_def sint_and_128 sint_and_15
      split: sum.splits)

lemma wkb_band_nil: "wkb_band e h w n band (arr, pt, []) = Inl (Exc StructError)"
  by (simp add: wkb_band_def read_def unpack_b_def)

lemma wkb_bands_append:
  "wkb_bands e h w n (xs @ ys) st =
     (case wkb_bands e h w n xs st of Inl err \<Rightarrow> Inl err | Inr st' \<Rightarrow> wkb_bands e h w n ys st')"
  by (induction xs arbitrary: st) (auto split: sum.splits)

lemma upt_split: "k < n \<Longrightarrow> [0..<n] = [0..<k] @ k # [Suc k..<n]"
proof -
  assume "k < n"
  then have "[0..<n] = [0..<k] @ [k..<n]"
    using upt_add_eq_append [of 0 k "n - k"] by simp
  with \<open>k < n\<close> show ?thesis by (simp add: upt_conv_Cons)
qed

lemma wkb_to_numpy_stream:
  "length hb = 60 \<Longrightarrow>
   wkb_to_numpy (BytesIO (f # hb @ body)) =
     (case unpack_header (wkb_endian (sint f)) hb of Inl err \<Rightarrow> Inl err
      | Inr hdr \<Rightarrow>
         (case wkb_bands (wkb_endian (sint f)) (height hdr) (width hdr) (bands hdr)
                 [0..<bands hdr] (None, None, body) of
            Inl err \<Rightarrow> Inl err
          | Inr st \<Rightarrow> Inr (fst st)))"
  by (simp add: wkb_to_numpy_def read_def unpack_b_def split: sum.splits prod.splits)

lemma wkb_to_numpy_reach:
  assumes "length hb = 60"
    and "unpack_header (wkb_endian (sint f)) hb = Inr hdr"
    and "k < bands hdr"
    and "wkb_bands (wkb_endian (sint f)) (height hdr) (width hdr) (bands hdr) [0..<k]
           (None, None, body) = Inr st"
    and "wkb_band (wkb_endian (sint f)) (height hdr) (width hdr) (bands hdr) k st = Inl err"
  shows "wkb_to_numpy (BytesIO (f # hb @ body)) = Inl err"
  using assms by (simp add: wkb_to_numpy_stream upt_split [of k "bands hdr"] wkb_bands_append)

lemma for_each_error:
  "x \<in> set xs \<Longrightarrow> (\<And>s. fst (f x s) \<noteq> None) \<Longrightarrow> fst (for_each f xs s) \<noteq> None"
proof (induction xs arbitrary: s)
  case Nil
  then show ?case by simp
next
  case (Cons y ys)
  show ?case
  proof (cases "f y s")
    case (Pair r s')
    show ?thesis
    proof (cases r)
      case None
      with Pair Cons.prems(2) [of s] have "x \<noteq> y" by auto
      with Cons.prems(1) have "x \<in> set ys" by simp
      from Cons.IH [OF this Cons.prems(2)] Pair None show ?thesis by simp
    next
      case (Some e)
      with Pair show ?thesis by simp
    qed
  qed
qed

lemma postgis_tile_exit:
  "reply db t = Row (Some s) \<Longrightarrow> wkb_to_numpy (BytesIO s) = Inl (SystemExit m) \<Longrightarrow>
   postgis_tile db ts t w = (Some (SystemExit m), w)"
  by (simp add: postgis_tile_def fetch_raster_def io_BytesIO_def)

lemma main_postgis_exit:
  assumes "reply db t = Row (Some s)" and "wkb_to_numpy (BytesIO s) = Inl (SystemExit m)"
    and "t \<in> set tiles"
  shows "fst (main_postgis db ts tiles w) \<noteq> None"
proof -
  have "fst (for_each (postgis_tile db ts) tiles w) \<noteq> None"
    by (rule for_each_error [OF assms(3)]) (simp add: postgis_tile_exit [OF assms(1,2)])
  then show ?thesis by (simp add: main_postgis_def)
qed

lemma le_header_len: "length (le_header n w h) = 60"
  by (simp add: le_header_def)

lemma be_header_len: "length (be_header n w h) = 60"
  by (simp add: be_header_def)

lemma unpack_le_header:
  "unpack_header Little (le_header n w h) =
     Inr \<lparr>version = 0, bands = unat n, srid = 0, width = unat w, height = unat h\<rparr>"
  by (simp add: unpack_header_def u16_def u32_def le_header_def nth_append)

lemma unpack_be_header_little:
  "unpack_header Little (be_header n w h) =
     Inr \<lparr>version = 0, bands = 256 * unat n, srid = 0, width = 256 * unat w, height = 256 * unat h\<rparr>"
  by (simp add: unpack_header_def u16_def u32_def be_header_def nth_append)

lemma wkb_band_keeps_pixtype:
  "band \<noteq> 0 \<Longrightarrow> wkb_band e h w n band (a, p, s) = Inr (a', p', s') \<Longrightarrow> p' = p"
  by (auto simp add: wkb_band_def band_alloc_def band_data_def
      split: sum.splits if_splits option.splits prod.splits)

lemma wkb_bands_keep_pixtype:
  "0 \<notin> set bs \<Longrightarrow> wkb_bands e h w n bs (a, p, s) = Inr (a', p', s') \<Longrightarrow> p' = p"
proof (induction bs arbitrary: a p s)
  case Nil
  then show ?case by simp
next
  case (Cons band bs)
  from Cons.prems(2) obtain a1 p1 s1 where
    step: "wkb_band e h w n band (a, p, s) = Inr (a1, p1, s1)"
    and rest: "wkb_bands e h w n bs (a1, p1, s1) = Inr (a', p', s')"
    by (auto split: sum.splits)
  from Cons.prems(1) have "band \<noteq> 0" and "0 \<notin> set bs" by auto
  from wkb_band_keeps_pixtype [OF \<open>band \<noteq> 0\<close> step] Cons.IH [OF \<open>0 \<notin> set bs\<close> rest]
  show ?case by simp
qed

lemma wkb_band0_pixtype:
  "wkb_band e h w n 0 (a, p, b0 # s) = Inr (a', p', s') \<Longrightarrow> p' = Some (uint (b0 AND 15))"
  by (auto simp add: wkb_band_cons band_alloc_def band_data_def
      split: sum.splits if_splits option.splits prod.splits)

lemma pixtype_is_band0_code:
  assumes "wkb_bands e h w n [0..<k] (None, None, b0 # s) = Inr (a', p', s')" and "0 < k"
  shows "p' = Some (uint (b0 AND 15))"
proof -
  from \<open>0 < k\<close> have u: "[0..<k] = 0 # [1..<k]" by (simp add: upt_conv_Cons)
  from assms(1) obtain a1 p1 s1 where
    step: "wkb_band e h w n 0 (None, None, b0 # s) = Inr (a1, p1, s1)"
    and rest: "wkb_bands e h w n [1..<k] (a1, p1, s1) = Inr (a', p', s')"
    unfolding u by (auto split: sum.splits)
  have "0 \<notin> set [1..<k]" by simp
  from wkb_bands_keep_pixtype [OF this rest] wkb_band0_pixtype [OF step]
  show ?thesis by simp
qed

lemma py_index_in: "0 \<le> i \<Longrightarrow> i < int (length xs) \<Longrightarrow> py_index xs i = Inr (xs ! nat i)"
  by (simp add: py_index_def)

lemma py_index_out: "int (length xs) \<le> i \<Longrightarrow> py_index xs i = Inl (Exc IndexError)"
  by (simp add: py_index_def)

lemma wkb_band_mixed:
  assumes "band \<noteq> 0" and "\<not> bit b 7" and "uint (b AND 15) < 11"
    and "p \<noteq> uint (b AND 15)"
  shows "wkb_band e h w n band (a, Some p, b # rest) = Inl (SystemExit mixed_msg)"
  using assms
  by (simp add: wkb_band_cons py_index_in size_table_def dtype_table_def band_alloc_def)

lemma wkb_band_index_error:
  assumes "\<not> bit b 7" and "11 \<le> uint (b AND 15)"
  shows "wkb_band e h w n band (a, p, b # rest) = Inl (Exc IndexError)"
  using assms by (simp add: wkb_band_cons py_index_out size_table_def)

lemma hdr_little: "unpack_header (wkb_endian fl) (le_header n w h)
  = Inr \<lparr>version = 0, bands = unat n, srid = 0, width = unat w, height = unat h\<rparr>"
  by (simp add: wkb_endian_little unpack_le_header)

lemmas decode_eval = wkb_band_cons py_index_def size_table_def dtype_table_def band_alloc_def
  band_data_def read_def np_ndarray_def np_zeros_def set_band_def Let_def






lemma normalize_triangle: "normalize_polygon triangle = Inr triangle"
  by (simp add: normalize_polygon_def triangle_def)

lemma build0: "build_feature_map burn0 10 [file0] logs0
   = (None, ''4326'', [Tile 1 1 10 \<mapsto> [triangle]], logs0)"
  by (simp add: build_feature_map_def parse_file_def file0_def enumerate_eq_zip
      parse_feature_def geojson_parse_geometry_def geojson_parse_polygon_def
      normalize_triangle burn0_def fm_append_def)

lemma mercator_triangle: "geojson_to_mercator transform0 e triangle = Inr [[(0, 0), (1, 0), (1, 1), (0, 0)]]"
  by (simp add: geojson_to_mercator_def ring_to_mercator_def triangle_def transform0_def)

lemma run0: "main_geojson burn0 transform0 rasterize0 10 2 [Tile 1 1 10, Tile 2 2 10] [file0] world0
   = (None, world0 \<lparr> written :=
        [(Tile 1 1 10, \<lparr>dtype = U1, shape = [2, 2], cells = replicate (2 * 2) [1]\<rparr>),
         (Tile 2 2 10, np_zeros [2, 2] (Some U1))] \<rparr>)"
  by (simp add: main_geojson_def world0_def build0 geojson_tile_def geojson_tile_burn_def
      mercator_triangle rasterize0_def write_tile_def)


text \<open>The feature-map construction does not depend on the feature index or on the lines logged.\<close>

lemma alikeI:
  "(\<And>s s'. R s s' \<Longrightarrow> fst (f s) = fst (g s') \<and> R (snd (f s)) (snd (g s'))) \<Longrightarrow> alike R f g"
  by (simp add: alike_def)

lemma alikeD:
  "alike R f g \<Longrightarrow> R s s' \<Longrightarrow> fst (f s) = fst (g s') \<and> R (snd (f s)) (snd (g s'))"
  by (simp add: alike_def)

lemma for_each_append: "for_each f (xs @ ys) = seq (for_each f xs) (for_each f ys)"
proof (rule ext)
  fix s
  show "for_each f (xs @ ys) s = seq (for_each f xs) (for_each f ys) s"
    by (induction xs arbitrary: s) (auto simp add: seq_def split: prod.splits option.splits)
qed

lemma for_each_single: "for_each f [x] = f x"
proof (rule ext)
  fix s
  show "for_each f [x] s = f x s"
    by (cases "f x s") (auto split: option.splits)
qed

lemma for_each_Cons_seq: "for_each f (x # xs) = seq (f x) (for_each f xs)"
  using for_each_append [of f "[x]" xs] by (simp add: for_each_single)

lemma alike_seq:
  assumes "alike R f f'" and "alike R g g'"
  shows "alike R (seq f g) (seq f' g')"
proof (rule alikeI)
  fix s s' assume R: "R s s'"
  obtain r t where f: "f s = (r, t)" by (cases "f s")
  obtain r' t' where f': "f' s' = (r', t')" by (cases "f' s'")
  from alikeD [OF assms(1) R] f f' have eq: "r = r'" and Rt: "R t t'" by simp_all
  show "fst (seq f g s) = fst (seq f' g' s') \<and> R (snd (seq f g s)) (snd (seq f' g' s'))"
  proof (cases r)
    case (Some e)
    with eq have "r' = Some e" by simp
    with f f' Some Rt show ?thesis by (simp add: seq_def)
  next
    case None
    with eq have "r' = None" by simp
    with f f' None alikeD [OF assms(2) Rt] show ?thesis by (simp add: seq_def)
  qed
qed

lemma alike_skip: "alike R (\<lambda>s. (None, s)) (\<lambda>s. (None, s))"
  by (simp add: alike_def)

lemma for_each_alike:
  "list_all2 (\<lambda>x y. alike R (f x) (g y)) xs ys \<Longrightarrow> alike R (for_each f xs) (for_each g ys)"
proof (induction rule: list_all2_induct)
  case Nil
  show ?case by (simp add: alike_def)
next
  case (Cons x xs y ys)
  have "alike R (seq (f x) (for_each f xs)) (seq (g y) (for_each g ys))"
    by (rule alike_seq [OF Cons.hyps(1) Cons.IH])
  then show ?case by (simp only: for_each_Cons_seq)
qed

lemma log_same_sink:
  assumes "same_sink l l'"
  shows "(case log l m of Inl e \<Rightarrow> log l' m' = Inl e
          | Inr x \<Rightarrow> (case log l' m' of Inl e' \<Rightarrow> False | Inr x' \<Rightarrow> same_sink x x'))"
  using assms by (auto simp add: log_def same_sink_def)

lemma parse_polygon_alike:
  "alike same_map (geojson_parse_polygon burn z p i) (geojson_parse_polygon burn z p i')"
proof (rule alikeI)
  fix s s' :: "'a feature_map \<times> logs"
  assume "same_map s s'"
  then have fm: "fst s = fst s'" and sk: "same_sink (snd s) (snd s')"
    by (simp_all add: same_map_def)
  note lg = log_same_sink [OF sk, where m = "InvalidFeature (ring_index p i)"
      and m' = "InvalidFeature (ring_index p i')"]
  show "fst (geojson_parse_polygon burn z p i s) = fst (geojson_parse_polygon burn z p i' s')
      \<and> same_map (snd (geojson_parse_polygon burn z p i s))
           (snd (geojson_parse_polygon burn z p i' s'))"
    using fm sk lg \<open>same_map s s'\<close>
    by (auto simp add: geojson_parse_polygon_def same_map_def split: sum.splits)
qed

lemma log_notice_alike:
  "alike same_map
     (\<lambda>st. case log (snd st) m of Inl err \<Rightarrow> (Some err, st) | Inr lg \<Rightarrow> (None, (fst st, lg)))
     (\<lambda>st. case log (snd st) m' of Inl err \<Rightarrow> (Some err, st) | Inr lg \<Rightarrow> (None, (fst st, lg)))"
proof (rule alikeI)
  fix s s' :: "'a feature_map \<times> logs"
  assume a: "same_map s s'"
  then have sk: "same_sink (snd s) (snd s')" by (simp add: same_map_def)
  note lg = log_same_sink [OF sk, where m = m and m' = m']
  show "fst (case log (snd s) m of Inl err \<Rightarrow> (Some err, s) | Inr lg \<Rightarrow> (None, (fst s, lg)))
      = fst (case log (snd s') m' of Inl err \<Rightarrow> (Some err, s') | Inr lg \<Rightarrow> (None, (fst s', lg)))
     \<and> same_map
          (snd (case log (snd s) m of Inl err \<Rightarrow> (Some err, s) | Inr lg \<Rightarrow> (None, (fst s, lg))))
          (snd (case log (snd s') m' of Inl err \<Rightarrow> (Some err, s') | Inr lg \<Rightarrow> (None, (fst s', lg))))"
    using a lg by (auto simp add: same_map_def split: sum.splits)
qed

lemma list_all2_refl_alike: "(\<And>x. P x x) \<Longrightarrow> list_all2 P xs xs"
  by (simp add: list_all2_same)

lemma parse_geometry_alike:
  "alike same_map (geojson_parse_geometry burn z g i) (geojson_parse_geometry burn z g i')"
proof (cases g)
  case (Polygon c)
  have "geojson_parse_geometry burn z g i = geojson_parse_polygon burn z c i"
    and "geojson_parse_geometry burn z g i' = geojson_parse_polygon burn z c i'"
    using Polygon by (auto simp add: geojson_parse_geometry_def)
  then show ?thesis by (simp add: parse_polygon_alike)
next
  case (MultiPolygon ps)
  have "geojson_parse_geometry burn z g i
          = for_each (\<lambda>p. geojson_parse_polygon burn z p i) ps"
    and "geojson_parse_geometry burn z g i'
          = for_each (\<lambda>p. geojson_parse_polygon burn z p i') ps"
    using MultiPolygon by (auto simp add: geojson_parse_geometry_def)
  moreover have "alike same_map (for_each (\<lambda>p. geojson_parse_polygon burn z p i) ps)
                   (for_each (\<lambda>p. geojson_parse_polygon burn z p i') ps)"
    by (rule for_each_alike) (simp add: list_all2_same parse_polygon_alike)
  ultimately show ?thesis by simp
next
  case (GeometryCollection gs)
  have "geojson_parse_geometry burn z g i
          = (\<lambda>st. case log (snd st) (NonSurfacic (geometry_type g) i) of
                    Inl err \<Rightarrow> (Some err, st) | Inr lg \<Rightarrow> (None, (fst st, lg)))"
    and "geojson_parse_geometry burn z g i'
          = (\<lambda>st. case log (snd st) (NonSurfacic (geometry_type g) i') of
                    Inl err \<Rightarrow> (Some err, st) | Inr lg \<Rightarrow> (None, (fst st, lg)))"
    using GeometryCollection by (auto simp add: geojson_parse_geometry_def)
  then show ?thesis by (simp add: log_notice_alike)
next
  case (OtherGeometry name)
  have "geojson_parse_geometry burn z g i
          = (\<lambda>st. case log (snd st) (NonSurfacic (geometry_type g) i) of
                    Inl err \<Rightarrow> (Some err, st) | Inr lg \<Rightarrow> (None, (fst st, lg)))"
    and "geojson_parse_geometry burn z g i'
          = (\<lambda>st. case log (snd st) (NonSurfacic (geometry_type g) i') of
                    Inl err \<Rightarrow> (Some err, st) | Inr lg \<Rightarrow> (None, (fst st, lg)))"
    using OtherGeometry by (auto simp add: geojson_parse_geometry_def)
  then show ?thesis by (simp add: log_notice_alike)
qed

lemma parse_feature_alike:
  "alike same_map (parse_feature burn z (i, g)) (parse_feature burn z (i', g))"
proof (cases g)
  case (GeometryCollection gs)
  have "parse_feature burn z (i, g) = for_each (\<lambda>x. geojson_parse_geometry burn z x i) gs"
    and "parse_feature burn z (i', g) = for_each (\<lambda>x. geojson_parse_geometry burn z x i') gs"
    using GeometryCollection by (auto simp add: parse_feature_def)
  moreover have "alike same_map (for_each (\<lambda>x. geojson_parse_geometry burn z x i) gs)
                   (for_each (\<lambda>x. geojson_parse_geometry burn z x i') gs)"
    by (rule for_each_alike) (simp add: list_all2_same parse_geometry_alike)
  ultimately show ?thesis by simp
next
  case (Polygon c)
  then have "parse_feature burn z (i, g) = geojson_parse_geometry burn z g i"
    and "parse_feature burn z (i', g) = geojson_parse_geometry burn z g i'"
    by (auto simp add: parse_feature_def)
  then show ?thesis by (simp add: parse_geometry_alike)
next
  case (MultiPolygon ps)
  then have "parse_feature burn z (i, g) = geojson_parse_geometry burn z g i"
    and "parse_feature burn z (i', g) = geojson_parse_geometry burn z g i'"
    by (auto simp add: parse_feature_def)
  then show ?thesis by (simp add: parse_geometry_alike)
next
  case (OtherGeometry name)
  then have "parse_feature burn z (i, g) = geojson_parse_geometry burn z g i"
    and "parse_feature burn z (i', g) = geojson_parse_geometry burn z g i'"
    by (auto simp add: parse_feature_def)
  then show ?thesis by (simp add: parse_geometry_alike)
qed

lemma features_alike:
  "alike same_map (for_each (parse_feature burn z) (enumerate j fs))
     (for_each (parse_feature burn z) (enumerate j' fs))"
proof (rule for_each_alike)
  show "list_all2 (\<lambda>x y. alike same_map (parse_feature burn z x) (parse_feature burn z y))
          (enumerate j fs) (enumerate j' fs)"
    by (simp add: list_all2_conv_all_nth nth_enumerate_eq parse_feature_alike)
qed

lemma multipolygon_alike:
  "alike same_map (parse_feature burn z (i, MultiPolygon ps))
     (for_each (parse_feature burn z) (enumerate j (map Polygon ps)))"
proof -
  have m: "parse_feature burn z (i, MultiPolygon ps)
             = for_each (\<lambda>p. geojson_parse_polygon burn z p i) ps"
    by (auto simp add: parse_feature_def geojson_parse_geometry_def)
  have p: "\<And>k c. parse_feature burn z (k, Polygon c) = geojson_parse_polygon burn z c k"
    by (auto simp add: parse_feature_def geojson_parse_geometry_def)
  have "list_all2 (\<lambda>c y. alike same_map (geojson_parse_polygon burn z c i)
                           (parse_feature burn z y))
          ps (enumerate j (map Polygon ps))"
    by (simp add: list_all2_conv_all_nth nth_enumerate_eq p parse_polygon_alike)
  then show ?thesis unfolding m by (rule for_each_alike)
qed

lemma expanded_features_alike:
  "alike same_map
     (for_each (parse_feature burn z) (enumerate 0 (pre @ [MultiPolygon ps] @ post)))
     (for_each (parse_feature burn z) (enumerate 0 (pre @ map Polygon ps @ post)))"
proof -
  let ?F = "parse_feature burn z"
  have l: "for_each ?F (enumerate 0 (pre @ [MultiPolygon ps] @ post))
           = seq (for_each ?F (enumerate 0 pre))
               (seq (?F (length pre, MultiPolygon ps))
                  (for_each ?F (enumerate (Suc (length pre)) post)))"
    by (simp add: enumerate_append_eq for_each_append for_each_Cons_seq)
  have r: "for_each ?F (enumerate 0 (pre @ map Polygon ps @ post))
           = seq (for_each ?F (enumerate 0 pre))
               (seq (for_each ?F (enumerate (length pre) (map Polygon ps)))
                  (for_each ?F (enumerate (length pre + length ps) post)))"
    by (simp add: enumerate_append_eq for_each_append)
  show ?thesis unfolding l r
    by (intro alike_seq features_alike multipolygon_alike)
qed

lemma same_sink_refl: "same_sink l l"
  by (simp add: same_sink_def)

lemma parse_file_alike:
  assumes "alike same_map (for_each (parse_feature burn z) (enumerate 0 (features f)))
             (for_each (parse_feature burn z) (enumerate 0 (features f')))"
    and "crs_init f = crs_init f'"
  shows "alike same_index (parse_file burn z f) (parse_file burn z f')"
proof (rule alikeI)
  fix s s' :: "string \<times> 'a feature_map \<times> logs"
  assume "same_index s s'"
  then have "same_map (snd s) (snd s')" by (simp add: same_index_def)
  from alikeD [OF assms(1) this] assms(2)
  show "fst (parse_file burn z f s) = fst (parse_file burn z f' s')
      \<and> same_index (snd (parse_file burn z f s)) (snd (parse_file burn z f' s'))"
    by (auto simp add: parse_file_def same_index_def split: prod.splits)
qed

lemma parse_file_same: "alike same_index (parse_file burn z f) (parse_file burn z f)"
  by (rule parse_file_alike [OF features_alike refl])

lemma files_alike:
  assumes "alike same_index (parse_file burn z f) (parse_file burn z f')"
  shows "alike same_index (for_each (parse_file burn z) (fs1 @ [f] @ fs2))
           (for_each (parse_file burn z) (fs1 @ [f'] @ fs2))"
proof (rule for_each_alike)
  let ?P = "\<lambda>x y. alike same_index (parse_file burn z x) (parse_file burn z y)"
  have a: "list_all2 ?P fs1 fs1" and b: "list_all2 ?P fs2 fs2"
    by (simp_all add: list_all2_same parse_file_same)
  have c: "list_all2 ?P [f] [f']" using assms by simp
  show "list_all2 ?P (fs1 @ [f] @ fs2) (fs1 @ [f'] @ fs2)"
    by (intro list_all2_appendI a b c)
qed

lemma build_feature_map_alike:
  assumes "alike same_index (parse_file burn z f) (parse_file burn z f')"
    and "build_feature_map burn z (fs1 @ [f] @ fs2) lg = (r, e, fm, lg1)"
    and "build_feature_map burn z (fs1 @ [f'] @ fs2) lg = (r', e', fm', lg1')"
  shows "r = r' \<and> e = e' \<and> fm = fm'"
proof -
  have i: "same_index (''4326'', Map.empty, lg) (''4326'', Map.empty, lg)"
    by (simp add: same_index_def same_map_def same_sink_refl)
  note fa = files_alike [OF assms(1), where ?fs1.0 = fs1 and ?fs2.0 = fs2]
  from fa i have
    "fst (build_feature_map burn z (fs1 @ [f] @ fs2) lg)
       = fst (build_feature_map burn z (fs1 @ [f'] @ fs2) lg)"
    and "same_index (snd (build_feature_map burn z (fs1 @ [f] @ fs2) lg))
           (snd (build_feature_map burn z (fs1 @ [f'] @ fs2) lg))"
    unfolding alike_def build_feature_map_def by blast+
  then have "r = r'" and "same_index (e, fm, lg1) (e', fm', lg1')"
    unfolding assms(2,3) by simp_all
  then show ?thesis by (simp add: same_index_def same_map_def)
qed

lemma geojson_tile_logs:
  "geojson_tile tr ra ts e fm t (w \<lparr> logs := l \<rparr>)
     = (case geojson_tile tr ra ts e fm t w of (r, w') \<Rightarrow> (r, w' \<lparr> logs := l \<rparr>))"
  by (simp add: geojson_tile_def write_tile_def split: option.splits sum.splits)

lemma geojson_loop_logs:
  "for_each (geojson_tile tr ra ts e fm) tiles (w \<lparr> logs := l \<rparr>)
     = (case for_each (geojson_tile tr ra ts e fm) tiles w of (r, w') \<Rightarrow> (r, w' \<lparr> logs := l \<rparr>))"
proof (induction tiles arbitrary: w)
  case Nil
  show ?case by simp
next
  case (Cons t tiles)
  obtain r1 w1 where s: "geojson_tile tr ra ts e fm t w = (r1, w1)"
    by (cases "geojson_tile tr ra ts e fm t w")
  then have s': "geojson_tile tr ra ts e fm t (w \<lparr> logs := l \<rparr>) = (r1, w1 \<lparr> logs := l \<rparr>)"
    by (simp add: geojson_tile_logs)
  show ?case
  proof (cases r1)
    case None
    then show ?thesis by (simp add: s s' Cons.IH)
  next
    case (Some err)
    then show ?thesis by (simp add: s s')
  qed
qed

lemma main_geojson_written:
  assumes "build_feature_map burn z files (logs w) = (r, e, fm, lg)"
  shows "fst (main_geojson burn tr ra z ts tiles files w)
           = (if list_all (\<lambda>t. tile_z t = z) tiles
              then (case r of Some err \<Rightarrow> Some err
                    | None \<Rightarrow> fst (for_each (geojson_tile tr ra ts e fm) tiles w))
              else Some (SystemExit zoom_msg))"
    and "written (snd (main_geojson burn tr ra z ts tiles files w))
           = (if list_all (\<lambda>t. tile_z t = z) tiles
              then (case r of Some err \<Rightarrow> written w
                    | None \<Rightarrow> written (snd (for_each (geojson_tile tr ra ts e fm) tiles w)))
              else written w)"
proof -
  obtain r2 w2 where l: "for_each (geojson_tile tr ra ts e fm) tiles w = (r2, w2)"
    by (cases "for_each (geojson_tile tr ra ts e fm) tiles w")
  have m: "main_geojson burn tr ra z ts tiles files w
             = (if list_all (\<lambda>t. tile_z t = z) tiles
                then (case r of Some err \<Rightarrow> (Some err, w \<lparr> logs := lg \<rparr>)
                      | None \<Rightarrow> (r2, w2 \<lparr> logs := lg \<rparr>))
                else (Some (SystemExit zoom_msg), w))"
    by (simp add: main_geojson_def assms geojson_loop_logs l split: option.splits)
  show "fst (main_geojson burn tr ra z ts tiles files w)
           = (if list_all (\<lambda>t. tile_z t = z) tiles
              then (case r of Some err \<Rightarrow> Some err
                    | None \<Rightarrow> fst (for_each (geojson_tile tr ra ts e fm) tiles w))
              else Some (SystemExit zoom_msg))"
    by (cases r) (simp_all add: m l)
  show "written (snd (main_geojson burn tr ra z ts tiles files w))
           = (if list_all (\<lambda>t. tile_z t = z) tiles
              then (case r of Some err \<Rightarrow> written w
                    | None \<Rightarrow> written (snd (for_each (geojson_tile tr ra ts e fm) tiles w)))
              else written w)"
    by (cases r) (simp_all add: m l)
qed

section \<open>The endianness flag\<close>

text \<open>
  C1. The claim: a first byte 0 makes every later multi-byte read big-endian, any other
  first byte little-endian. Line 86 compares the tuple returned by \<^verbatim>\<open>struct.unpack\<close>
  with 0, which is never equal, so the byte order is little-endian also for the flag 0: a
  raster whose header is written in little-endian order behind a flag 0 is decoded, and
  the same raster written in big-endian order behind the flag 0 is read with band count,
  width and height 256 and fails on its pixel data.
\<close>

theorem flag_zero_is_read_little_endian:
  "wkb_endian (sint (0 :: byte)) = Little
   \<and> wkb_to_numpy (BytesIO (0 # le_header 1 1 1 @ [4, 0, 7]))
       = Inr (Some \<lparr>dtype = U1, shape = [1, 1, 1], cells = [[7]]\<rparr>)
   \<and> wkb_to_numpy (BytesIO (0 # be_header 1 1 1 @ [4, 0, 7])) = Inl (Exc TypeError)"
proof -
  have a: "wkb_to_numpy (BytesIO (0 # le_header 1 1 1 @ [4, 0, 7]))
       = Inr (Some \<lparr>dtype = U1, shape = [1, 1, 1], cells = [[7]]\<rparr>)"
    by (simp add: wkb_to_numpy_stream [OF le_header_len] wkb_endian_little unpack_le_header
        decode_eval)
  have b: "wkb_to_numpy (BytesIO (0 # be_header 1 1 1 @ [4, 0, 7])) = Inl (Exc TypeError)"
    by (simp add: wkb_to_numpy_stream [OF be_header_len] wkb_endian_little
        unpack_be_header_little wkb_band_cons py_index_def size_table_def dtype_table_def
        band_alloc_def band_data_def read_def np_ndarray_def Let_def upt_conv_Cons)
  show ?thesis using a b by (simp add: wkb_endian_little)
qed

section \<open>Absent and empty input\<close>

text \<open>
  C4. The claim: an empty or absent input stream gives a null result and no error. The
  guard of line 83 tests the truthiness of its argument, and a stream object is truthy
  whatever it holds: an empty stream passes the guard, the first read gives no byte and
  \<^verbatim>\<open>struct.unpack\<close> raises \<^verbatim>\<open>struct.error\<close>. So does the stream that line 242 makes of
  a row whose first column is empty or NULL.
\<close>

theorem empty_stream_raises:
  "wkb_to_numpy (BytesIO []) = Inl (Exc StructError)
   \<and> wkb_to_numpy (io_BytesIO None) = Inl (Exc StructError)
   \<and> fetch_raster (Row (Some [])) = Inl (Exc StructError)
   \<and> fetch_raster (Row None) = Inl (Exc StructError)"
  by (simp add: wkb_to_numpy_def read_def unpack_b_def io_BytesIO_def fetch_raster_def)

text \<open>The guard answers \<^verbatim>\<open>None\<close> only, an argument that \<^verbatim>\<open>main\<close> never passes.\<close>

lemma absent_input_returns_null: "wkb_to_numpy PyNone = Inr None"
  by (simp add: wkb_to_numpy_def)

section \<open>Out-of-line bands\<close>




section \<open>Mixed pixel types\<close>

text \<open>
  A payload of two bands with the pixel-type codes 4 and 12: the codes differ, but the
  table lookup of line 97 comes before the comparison of line 105 and raises
  \<^verbatim>\<open>IndexError\<close>, which \<^verbatim>\<open>except Exception\<close> catches; the run goes on.
\<close>

theorem mixed_code_outside_table_counterexample:
  "wkb_to_numpy (BytesIO (1 # le_header 2 1 1 @ [4, 0, 7, 12, 0, 7])) = Inl (Exc IndexError)
   \<and> fst (postgis_tile (db_const (Row (Some (1 # le_header 2 1 1 @ [4, 0, 7, 12, 0, 7])))) 2
             (Tile 0 0 0) world0) = None"
proof -
  have d: "wkb_to_numpy (BytesIO (1 # le_header 2 1 1 @ [4, 0, 7, 12, 0, 7])) = Inl (Exc IndexError)"
    by (simp add: wkb_to_numpy_stream [OF le_header_len] wkb_endian_little unpack_le_header
        decode_eval upt_conv_Cons)
  show ?thesis
    by (simp add: d postgis_tile_def fetch_raster_def io_BytesIO_def db_const_def log_def
        world0_def logs0_def write_tile_def)
qed

text \<open>
  C6, as amended: for every payload with at least two bands, when the decoder reaches a
  band after band 0 whose flag byte has bit 7 clear and a pixel-type code within the table
  (0 to 10) that differs from the code of band 0, the decoder leaves with the exit of line
  106, which ends the run.
\<close>

theorem mixed_pixel_type_is_fatal:
  assumes "length hb = 60"
    and "unpack_header (wkb_endian (sint f)) hb = Inr hdr"
    and "0 < k" and "k < bands hdr"
    and "wkb_bands (wkb_endian (sint f)) (height hdr) (width hdr) (bands hdr) [0..<k]
           (None, None, b0 # body) = Inr (arr, pt, b # rest)"
    and "\<not> bit b 7" and "uint (b AND 15) < 11" and "b AND 15 \<noteq> b0 AND 15"
    and "reply db t = Row (Some (f # hb @ b0 # body))"
    and "t \<in> set tiles"
  shows "wkb_to_numpy (BytesIO (f # hb @ b0 # body)) = Inl (SystemExit mixed_msg)
       \<and> postgis_tile db ts t w = (Some (SystemExit mixed_msg), w)
       \<and> fst (main_postgis db ts tiles w) \<noteq> None"
proof -
  have pt: "pt = Some (uint (b0 AND 15))"
    by (rule pixtype_is_band0_code [OF assms(5) assms(3)])
  from assms(8) have ne: "uint (b0 AND 15) \<noteq> uint (b AND 15)"
    using word_uint_eq_iff [of "b0 AND 15" "b AND 15"] by auto
  from assms(3) have k: "k \<noteq> 0" by simp
  have d: "wkb_to_numpy (BytesIO (f # hb @ b0 # body)) = Inl (SystemExit mixed_msg)"
    by (rule wkb_to_numpy_reach [OF assms(1,2,4,5)])
       (simp add: pt wkb_band_mixed [OF k assms(6,7) ne])
  show ?thesis
    using d postgis_tile_exit [OF assms(9) d] main_postgis_exit [OF assms(9) d assms(10)]
    by simp
qed

theorem mixed_pixel_type_is_fatal_witness:
  "wkb_to_numpy (BytesIO (1 # le_header 2 1 1 @ 4 # [0, 7, 5, 0, 0, 9, 9])) = Inl (SystemExit mixed_msg)
   \<and> postgis_tile (db_const (Row (Some (1 # le_header 2 1 1 @ 4 # [0, 7, 5, 0, 0, 9, 9])))) 2
        (Tile 0 0 0) world0 = (Some (SystemExit mixed_msg), world0)
   \<and> fst (main_postgis (db_const (Row (Some (1 # le_header 2 1 1 @ 4 # [0, 7, 5, 0, 0, 9, 9])))) 2
             [Tile 0 0 0] world0) \<noteq> None"
proof -
  let ?hdr = "\<lparr>version = 0, bands = unat (2 :: byte), srid = 0,
              width = unat (1 :: byte), height = unat (1 :: byte)\<rparr>"
  have h3: "0 < (1 :: nat)" by simp
  have h4: "1 < bands ?hdr" by simp
  have h5: "wkb_bands (wkb_endian (sint (1 :: byte))) (height ?hdr) (width ?hdr) (bands ?hdr)
              [0..<1] (None, None, 4 # [0, 7, 5, 0, 0, 9, 9])
            = Inr (Some (set_band (np_zeros [1, 1, 2] (Some U1)) 0
                          \<lparr>dtype = U1, shape = [1, 1], cells = [[7]]\<rparr>),
                   Some 4, 5 # [0, 0, 9, 9])"
    by (simp add: wkb_band_cons py_index_def size_table_def dtype_table_def band_alloc_def
        band_data_def read_def np_ndarray_def Let_def bit_iff_odd)
  have h6: "\<not> bit (5 :: byte) 7" by (simp add: bit_iff_odd)
  have h7: "uint (5 AND 15 :: byte) < 11" by simp
  have h8: "(5 :: byte) AND 15 \<noteq> 4 AND 15" by simp
  have h9: "reply (db_const (Row (Some (1 # le_header 2 1 1 @ 4 # [0, 7, 5, 0, 0, 9, 9]))))
              (Tile 0 0 0) = Row (Some (1 # le_header 2 1 1 @ 4 # [0, 7, 5, 0, 0, 9, 9]))"
    by (simp add: db_const_def)
  have h10: "Tile 0 0 0 \<in> set [Tile 0 0 0]" by simp
  show ?thesis
    by (rule mixed_pixel_type_is_fatal [OF le_header_len hdr_little h3 h4 h5 h6 h7 h8 h9 h10])
qed

section \<open>Pixel-type codes outside the table\<close>

text \<open>
  A band with the flag byte \<open>0x8C\<close> has the pixel-type code 12, but bit 7 is set and the
  check of line 94 exits before the tables are indexed.
\<close>

theorem out_of_line_code_12_counterexample:
  "wkb_to_numpy (BytesIO (1 # le_header 1 1 1 @ [0x8C, 0, 7])) = Inl (SystemExit offline_msg)"
  by (simp add: wkb_to_numpy_stream [OF le_header_len] wkb_endian_little unpack_le_header
      wkb_band_cons bit_iff_odd)

text \<open>
  C10, as amended: the two tables have 11 entries and are indexed with the low 4 bits of
  the flag byte, between 0 and 15; for a band that the decoder reaches, with bit 7 of the
  flag byte clear and a pixel-type code from 11 to 15, the lookup is out of range and the
  decoder raises \<^verbatim>\<open>IndexError\<close>, neither a result nor an exit with a message.
\<close>

theorem pixel_code_out_of_table_raises:
  assumes "length hb = 60"
    and "unpack_header (wkb_endian (sint f)) hb = Inr hdr"
    and "k < bands hdr"
    and "wkb_bands (wkb_endian (sint f)) (height hdr) (width hdr) (bands hdr) [0..<k]
           (None, None, body) = Inr (arr, pt, b # rest)"
    and "\<not> bit b 7" and "11 \<le> uint (b AND 15)"
  shows "length size_table = 11 \<and> length dtype_table = 11 \<and> uint (b AND 15) \<le> 15
       \<and> wkb_to_numpy (BytesIO (f # hb @ body)) = Inl (Exc IndexError)"
proof -
  have "b AND 15 \<le> 15" by (rule word_and_le1)
  then have r: "uint (b AND 15) \<le> 15" by (simp add: word_le_def)
  have d: "wkb_to_numpy (BytesIO (f # hb @ body)) = Inl (Exc IndexError)"
    by (rule wkb_to_numpy_reach [OF assms(1-4)]) (simp add: wkb_band_index_error [OF assms(5,6)])
  show ?thesis using r d by (simp add: size_table_def dtype_table_def)
qed

theorem pixel_code_out_of_table_raises_witness:
  "length size_table = 11 \<and> length dtype_table = 11 \<and> uint (12 AND 15 :: byte) \<le> 15
   \<and> wkb_to_numpy (BytesIO (1 # le_header 1 1 1 @ [12, 0, 7])) = Inl (Exc IndexError)"
proof -
  let ?hdr = "\<lparr>version = 0, bands = unat (1 :: byte), srid = 0,
              width = unat (1 :: byte), height = unat (1 :: byte)\<rparr>"
  have h3: "0 < bands ?hdr" by simp
  have h4: "wkb_bands (wkb_endian (sint (1 :: byte))) (height ?hdr) (width ?hdr) (bands ?hdr)
              [0..<0] (None, None, [12, 0, 7]) = Inr (None, None, 12 # [0, 7])"
    by simp
  have h5: "\<not> bit (12 :: byte) 7" by (simp add: bit_iff_odd)
  have h6: "11 \<le> uint (12 AND 15 :: byte)" by simp
  show ?thesis
    by (rule pixel_code_out_of_table_raises [OF le_header_len hdr_little h3 h4 h5 h6])
qed

section \<open>The blank raster of the PostGIS path\<close>

text \<open>
  C2. The claim: every raster handed to the tile writer is 8-bit unsigned. The raster of
  line 210 is made without a dtype, so the raster written for a tile whose query returns
  no row, or fails, is \<^verbatim>\<open>float64\<close>.
\<close>

theorem postgis_blank_raster_is_float64:
  "postgis_tile (db_const NoRow) 2 (Tile 0 0 0) world0
     = (None, world0 \<lparr> written := [(Tile 0 0 0, np_zeros [2, 2] None)] \<rparr>)
   \<and> postgis_tile (db_const QueryFails) 2 (Tile 0 0 0) world0
     = (None, \<lparr> logs = logs0 \<lparr> fp := Some [InvalidGeometries (Tile 0 0 0)],
                                 out := Some [InvalidGeometries (Tile 0 0 0)] \<rparr>,
               written = [(Tile 0 0 0, np_zeros [2, 2] None)] \<rparr>)
   \<and> dtype (np_zeros [2, 2] None) = F8"
  by (simp add: postgis_tile_def fetch_raster_def db_const_def write_tile_def world0_def
      logs0_def log_def np_zeros_def)

text \<open>
  A tile whose query returns no row leaves the log as it was: no warning is written.
\<close>

theorem empty_result_logs_nothing_counterexample:
  "logs (snd (postgis_tile (db_const NoRow) 2 (Tile 0 0 0) world0))
     = \<lparr> fp = Some [], out = Some [], writable = True \<rparr>"
  by (simp add: postgis_tile_def fetch_raster_def db_const_def write_tile_def world0_def
      logs0_def)

text \<open>
  C3, as amended: for every tile whose query executes and returns no row, the run writes
  an all-zero raster for the tile, logs nothing and goes on to the next tile.
\<close>

theorem empty_result_writes_blank_silently:
  assumes "reply db t = NoRow"
  shows "postgis_tile db ts t w
           = (None, w \<lparr> written := written w @ [(t, np_zeros [ts, ts] None)] \<rparr>)
       \<and> cells (np_zeros [ts, ts] None) = replicate (ts * ts) (replicate 8 0)"
  using assms by (simp add: postgis_tile_def fetch_raster_def write_tile_def np_zeros_def)

theorem empty_result_writes_blank_silently_witness:
  "postgis_tile (db_const NoRow) 2 (Tile 3 5 4) world0
           = (None, world0 \<lparr> written := written world0 @ [(Tile 3 5 4, np_zeros [2, 2] None)] \<rparr>)
       \<and> cells (np_zeros [2, 2] None) = replicate (2 * 2) (replicate 8 0)"
  by (rule empty_result_writes_blank_silently) (simp add: db_const_def)

section \<open>The zoom level of the cover\<close>

text \<open>
  C7. In the GeoJSON path, when a tile of the cover has a zoom level other than the
  configured one, the run ends with the exit of line 168 and the state it started from:
  no raster is written and nothing is logged, whatever the files hold and whatever the
  external primitives would answer, so no feature has been processed.
\<close>

theorem zoom_mismatch_aborts_before_processing:
  assumes "truthy (geojson a)" and "\<not> truthy (postgis a)"
    and "t \<in> set (cover a)" and "tile_z t \<noteq> zoom a"
  shows "main_geojson burn tr ra (zoom a) ts (cover a) files w = (Some (SystemExit zoom_msg), w)
       \<and> main burn tr ra db config_ts a w = (Some (SystemExit zoom_msg), w)"
proof -
  from assms(3,4) have "\<not> list_all (\<lambda>t. tile_z t = zoom a) (cover a)"
    by (auto simp add: list_all_iff)
  then have g: "\<And>ts files. main_geojson burn tr ra (zoom a) ts (cover a) files w
                  = (Some (SystemExit zoom_msg), w)"
    by (simp add: main_geojson_def)
  show ?thesis using assms(1,2) by (simp add: g main_def)
qed

theorem zoom_mismatch_aborts_before_processing_witness:
  "main_geojson burn0 transform0 rasterize0 9 2 [Tile 1 1 10] [file0] world0
     = (Some (SystemExit zoom_msg), world0)
   \<and> main burn0 transform0 rasterize0 (db_const NoRow) 2
      \<lparr>geojson = Some [file0], postgis = None, zoom = 9, tile_size_arg = None,
        cover = [Tile 1 1 10]\<rparr>
      world0 = (Some (SystemExit zoom_msg), world0)"
proof -
  let ?a = "\<lparr>geojson = Some [file0], postgis = None, zoom = 9, tile_size_arg = None,
        cover = [Tile 1 1 10]\<rparr>"
  have h1: "truthy (geojson ?a)" by (simp add: truthy_def)
  have h2: "\<not> truthy (postgis ?a)" by (simp add: truthy_def)
  have h3: "Tile 1 1 10 \<in> set (cover ?a)" by simp
  have h4: "tile_z (Tile 1 1 10) \<noteq> zoom ?a" by simp
  show ?thesis
    using zoom_mismatch_aborts_before_processing [OF h1 h2 h3 h4, of burn0 transform0 rasterize0
        2 "[file0]" world0 "db_const NoRow" 2]
    by simp
qed

section \<open>Tiles without features\<close>




section \<open>MultiPolygon expansion\<close>

text \<open>
  C9. A run of the GeoJSON path on a file that holds a MultiPolygon with the member
  polygons \<open>ps\<close>, and the run on the same files with the MultiPolygon replaced by one
  Polygon feature for each member, in order, end alike (both without error, or both with
  the same error), build the same feature map and hand the same rasters to the tile
  writer, tile by tile; this for every cover, every other content of the files and every
  behaviour of the external primitives.
\<close>

theorem multipolygon_expansion_same_rasters:
  "fst (main_geojson burn tr ra z ts tiles
          (fs1 @ [\<lparr>crs_init = c, features = pre @ [MultiPolygon ps] @ post\<rparr>] @ fs2) w)
     = fst (main_geojson burn tr ra z ts tiles
          (fs1 @ [\<lparr>crs_init = c, features = pre @ map Polygon ps @ post\<rparr>] @ fs2) w)
   \<and> written (snd (main_geojson burn tr ra z ts tiles
          (fs1 @ [\<lparr>crs_init = c, features = pre @ [MultiPolygon ps] @ post\<rparr>] @ fs2) w))
     = written (snd (main_geojson burn tr ra z ts tiles
          (fs1 @ [\<lparr>crs_init = c, features = pre @ map Polygon ps @ post\<rparr>] @ fs2) w))
   \<and> fst (snd (snd (build_feature_map burn z
          (fs1 @ [\<lparr>crs_init = c, features = pre @ [MultiPolygon ps] @ post\<rparr>] @ fs2) (logs w))))
     = fst (snd (snd (build_feature_map burn z
          (fs1 @ [\<lparr>crs_init = c, features = pre @ map Polygon ps @ post\<rparr>] @ fs2) (logs w))))"
proof -
  let ?multi = "\<lparr>crs_init = c, features = pre @ [MultiPolygon ps] @ post\<rparr>"
  let ?members = "\<lparr>crs_init = c, features = pre @ map Polygon ps @ post\<rparr>"
  have fl: "alike same_index (parse_file burn z ?multi) (parse_file burn z ?members)"
    using expanded_features_alike [of burn z pre ps post]
    by (intro parse_file_alike) simp_all
  obtain r e fm lg where
    b: "build_feature_map burn z (fs1 @ [?multi] @ fs2) (logs w) = (r, e, fm, lg)"
    by (cases "build_feature_map burn z (fs1 @ [?multi] @ fs2) (logs w)")
  obtain r' e' fm' lg' where
    b': "build_feature_map burn z (fs1 @ [?members] @ fs2) (logs w) = (r', e', fm', lg')"
    by (cases "build_feature_map burn z (fs1 @ [?members] @ fs2) (logs w)")
  from build_feature_map_alike [OF fl b b']
  have eq: "r = r'" "e = e'" "fm = fm'" by simp_all
  have "fst (main_geojson burn tr ra z ts tiles (fs1 @ [?multi] @ fs2) w)
          = fst (main_geojson burn tr ra z ts tiles (fs1 @ [?members] @ fs2) w)"
    by (simp only: main_geojson_written(1) [OF b] main_geojson_written(1) [OF b'] eq)
  moreover have "written (snd (main_geojson burn tr ra z ts tiles (fs1 @ [?multi] @ fs2) w))
          = written (snd (main_geojson burn tr ra z ts tiles (fs1 @ [?members] @ fs2) w))"
    by (simp only: main_geojson_written(2) [OF b] main_geojson_written(2) [OF b'] eq)
  moreover have "fst (snd (snd (build_feature_map burn z (fs1 @ [?multi] @ fs2) (logs w))))
          = fst (snd (snd (build_feature_map burn z (fs1 @ [?members] @ fs2) (logs w))))"
    by (simp only: b b' eq fst_conv snd_conv)
  ultimately show ?thesis by (intro conjI)
qed

theorem multipolygon_expansion_same_rasters_witness:
  "fst (main_geojson burn0 transform0 rasterize0 10 2 [Tile 1 1 10, Tile 2 2 10]
          ([] @ [\<lparr>crs_init = ''epsg:4326'', features = [] @ [MultiPolygon [triangle, triangle]] @ []\<rparr>] @ []) world0)
     = fst (main_geojson burn0 transform0 rasterize0 10 2 [Tile 1 1 10, Tile 2 2 10]
          ([] @ [\<lparr>crs_init = ''epsg:4326'', features = [] @ map Polygon [triangle, triangle] @ []\<rparr>] @ []) world0)
   \<and> written (snd (main_geojson burn0 transform0 rasterize0 10 2 [Tile 1 1 10, Tile 2 2 10]
          ([] @ [\<lparr>crs_init = ''epsg:4326'', features = [] @ [MultiPolygon [triangle, triangle]] @ []\<rparr>] @ []) world0))
     = written (snd (main_geojson burn0 transform0 rasterize0 10 2 [Tile 1 1 10, Tile 2 2 10]
          ([] @ [\<lparr>crs_init = ''epsg:4326'', features = [] @ map Polygon [triangle, triangle] @ []\<rparr>] @ []) world0))
   \<and> fst (snd (snd (build_feature_map burn0 10
          ([] @ [\<lparr>crs_init = ''epsg:4326'', features = [] @ [MultiPolygon [triangle, triangle]] @ []\<rparr>] @ []) (logs world0))))
     = fst (snd (snd (build_feature_map burn0 10
          ([] @ [\<lparr>crs_init = ''epsg:4326'', features = [] @ map Polygon [triangle, triangle] @ []\<rparr>] @ []) (logs world0))))"
  by (rule multipolygon_expansion_same_rasters)

end
